theory Spec2Isabelle
  imports Main "HOL-Library.Word" "HOL-Library.Log_Nat"
begin

section \<open>The C wrapper around simdjson (vendor/simdjson-wrapper.cpp)\<close>

text \<open>
  The wrapper exposes the C++ engine through flat functions over opaque handles
  (\<^verbatim>\<open>void*\<close>). The embedding below keeps the wrapper's own code exact: its null
  guards, its \<^verbatim>\<open>try { ... } catch (...)\<close> blocks, its allocations with \<^verbatim>\<open>new\<close>,
  and the writes through its output pointers. The engine itself
  (\<^verbatim>\<open>simdjson/simdjson.h\<close>) is not part of the two source files; it enters every
  wrapper function as a parameter, a record of the methods the wrapper calls.
\<close>

subsection \<open>Pointers, results and exceptions\<close>

type_synonym addr = nat

text \<open>A pointer is \<open>None\<close> (\<^verbatim>\<open>nullptr\<close>) or \<open>Some a\<close>; the three handle types are \<^verbatim>\<open>void*\<close>.\<close>

type_synonym pointer = "addr option"
type_synonym simdjson_parser_t = pointer
type_synonym simdjson_document_t = pointer
type_synonym simdjson_element_t = pointer

text \<open>
  \<^verbatim>\<open>simdjson::error_code\<close> is an enumeration whose enumerators are not in the source
  files. The wrapper only tests a code for being non-zero (\<^verbatim>\<open>if (r.error())\<close>) and
  converts it with \<^verbatim>\<open>static_cast<int>\<close>, so a code is modelled by its integer value
  and the cast is the identity.
\<close>

type_synonym error_code = int

text \<open>
  \<^verbatim>\<open>simdjson_result<T>\<close>: the wrapper reads \<^verbatim>\<open>.error()\<close> and \<^verbatim>\<open>.value_unsafe()\<close>.
\<close>

record 'a simdjson_result =
  error :: error_code
  value_unsafe :: 'a

text \<open>A call into the engine, or \<^verbatim>\<open>new\<close>, either throws or returns.\<close>

datatype 'a call = Throw | Return 'a

text \<open>\<^verbatim>\<open>std::string_view\<close>, read through \<^verbatim>\<open>.data()\<close> and \<^verbatim>\<open>.length()\<close>.\<close>

record string_view =
  sv_data :: pointer
  sv_length :: nat

text \<open>\<^verbatim>\<open>ondemand::json_type\<close>; the wrapper compares against object, array and null.\<close>

datatype json_type =
  json_array | json_object | json_number | json_string | json_boolean | json_null

text \<open>A \<^verbatim>\<open>double\<close> is carried as its IEEE-754 binary64 bit pattern; the wrapper only moves it.\<close>

datatype double = Double (bits: "64 word")

text \<open>\<^verbatim>\<open>int64_t\<close> is a 64-bit word read in two's complement (\<open>sint\<close>), \<^verbatim>\<open>uint64_t\<close> one read unsigned.\<close>

type_synonym int64_t = "64 word"
type_synonym uint64_t = "64 word"

subsection \<open>The engine as a parameter\<close>

text \<open>
  \<open>'p\<close> is the state of an \<^verbatim>\<open>ondemand::parser\<close>, \<open>'s\<close> of an
  \<^verbatim>\<open>ondemand::document_stream\<close>, \<open>'v\<close> of an \<^verbatim>\<open>ondemand::value\<close>. Every method is
  non-const in the engine, so each returns the receiver's new state together with what
  the call did. The methods read the caller's bytes, so they take the memory.
\<close>

record ('p, 's, 'v) engine =
  parser_init :: 'p
  stream_init :: 's
  parse_into_document ::
    "'p \<Rightarrow> (addr \<Rightarrow> char) \<Rightarrow> pointer \<Rightarrow> nat \<Rightarrow> 'p \<times> 'v simdjson_result call"
  get_string :: "'v \<Rightarrow> (addr \<Rightarrow> char) \<Rightarrow> 'v \<times> string_view simdjson_result call"
  get_int64 :: "'v \<Rightarrow> (addr \<Rightarrow> char) \<Rightarrow> 'v \<times> int64_t simdjson_result call"
  get_uint64 :: "'v \<Rightarrow> (addr \<Rightarrow> char) \<Rightarrow> 'v \<times> uint64_t simdjson_result call"
  get_double :: "'v \<Rightarrow> (addr \<Rightarrow> char) \<Rightarrow> 'v \<times> double simdjson_result call"
  get_bool :: "'v \<Rightarrow> (addr \<Rightarrow> char) \<Rightarrow> 'v \<times> bool simdjson_result call"
  type_of :: "'v \<Rightarrow> (addr \<Rightarrow> char) \<Rightarrow> 'v \<times> json_type simdjson_result call"

subsection \<open>The wrapper's objects and the heap\<close>

record 'p SimdJsonParserImpl =
  parser :: 'p

record 's SimdJsonDocumentImpl =
  stream :: 's
  json_data :: pointer
  json_len :: nat

record 'v SimdJsonElementImpl =
  elem_value :: 'v

text \<open>\<^verbatim>\<open>simdjson_string\<close> of the header.\<close>

record simdjson_string =
  data :: pointer
  len :: nat

text \<open>What a caller's output location holds after a write through an output pointer.\<close>

datatype cell =
    DocumentCell simdjson_document_t
  | StringCell simdjson_string
  | Int64Cell int64_t
  | UInt64Cell uint64_t
  | DoubleCell double
  | IntCell int

text \<open>
  The heap: the live objects of each of the three kinds, the addresses \<^verbatim>\<open>new\<close> will
  hand out next (\<^verbatim>\<open>new\<close> throws \<^verbatim>\<open>std::bad_alloc\<close> when there are none), the caller's
  output locations, and the bytes of memory the input buffers live in.
\<close>

record ('p, 's, 'v) heap =
  parsers :: "addr \<rightharpoonup> 'p SimdJsonParserImpl"
  documents :: "addr \<rightharpoonup> 's SimdJsonDocumentImpl"
  elements :: "addr \<rightharpoonup> 'v SimdJsonElementImpl"
  free_store :: "addr list"
  cells :: "addr \<rightharpoonup> cell"
  memory :: "addr \<Rightarrow> char"

definition new :: "('p, 's, 'v) heap \<Rightarrow> (addr \<times> ('p, 's, 'v) heap) call" where
  "new h = (case free_store h of
              [] \<Rightarrow> Throw
            | a # rest \<Rightarrow> Return (a, h\<lparr>free_store := rest\<rparr>))"

text \<open>
  A wrapper function returns, or its behaviour is undefined: it casts a non-null handle
  and dereferences it unchecked, which is only defined on a live object of the right kind.
\<close>

datatype 'a outcome = Undefined | Returns 'a

subsection \<open>Parser creation and cleanup\<close>

text \<open>
  Lines 32 to 45. \<^verbatim>\<open>new SimdJsonParserImpl()\<close> stands in a \<^verbatim>\<open>try\<close> block whose handler
  returns \<^verbatim>\<open>nullptr\<close>. The three \<^verbatim>\<open>free\<close> functions do nothing on null and \<^verbatim>\<open>delete\<close> the
  object otherwise, which gives its address back to the free store.
\<close>

definition simdjson_create_parser ::
  "('p, 's, 'v) engine \<Rightarrow> ('p, 's, 'v) heap \<Rightarrow> simdjson_parser_t \<times> ('p, 's, 'v) heap" where
  "simdjson_create_parser E h =
     (case new h of
        Throw \<Rightarrow> (None, h)
      | Return (a, h') \<Rightarrow>
          (Some a, h'\<lparr>parsers := (parsers h')(a \<mapsto> \<lparr>parser = parser_init E\<rparr>)\<rparr>))"

definition simdjson_free_parser ::
  "('p, 's, 'v) heap \<Rightarrow> simdjson_parser_t \<Rightarrow> ('p, 's, 'v) heap outcome" where
  "simdjson_free_parser h parser_ptr =
     (case parser_ptr of
        None \<Rightarrow> Returns h
      | Some a \<Rightarrow>
          (case parsers h a of
             None \<Rightarrow> Undefined
           | Some impl \<Rightarrow>
               Returns (h\<lparr>parsers := (parsers h)(a := None), free_store := a # free_store h\<rparr>)))"

subsection \<open>Parsing\<close>

text \<open>
  Lines 48 to 73. The guard comes first and returns \<open>-1\<close>. Inside the \<^verbatim>\<open>try\<close> block the
  engine parses on the handle's own parser, which keeps the state the call leaves, also
  when the call throws. An error code of the result is returned as it is; otherwise the
  Document is allocated, given the caller's pointer and length, and its handle is written
  to \<^verbatim>\<open>*out_doc\<close>. The result of the parse itself is a local and is dropped; the
  Document's \<^verbatim>\<open>stream\<close> stays as constructed. The handler returns \<open>-1\<close>.
\<close>

definition simdjson_parse ::
  "('p, 's, 'v) engine \<Rightarrow> ('p, 's, 'v) heap \<Rightarrow> simdjson_parser_t \<Rightarrow> pointer \<Rightarrow> nat \<Rightarrow> pointer
     \<Rightarrow> (int \<times> ('p, 's, 'v) heap) outcome" where
  "simdjson_parse E h parser_ptr json jlen out_doc =
     (if parser_ptr = None \<or> json = None \<or> out_doc = None then Returns (- 1, h)
      else
        (case parsers h (the parser_ptr) of
           None \<Rightarrow> Undefined
         | Some impl \<Rightarrow>
             (case parse_into_document E (parser impl) (memory h) json jlen of
                (p', doc_result) \<Rightarrow>
                  (let h1 = h\<lparr>parsers := (parsers h)(the parser_ptr \<mapsto> impl\<lparr>parser := p'\<rparr>)\<rparr> in
                   case doc_result of
                     Throw \<Rightarrow> Returns (- 1, h1)
                   | Return r \<Rightarrow>
                       if error r \<noteq> 0 then Returns (error r, h1)
                       else
                         (case new h1 of
                            Throw \<Rightarrow> Returns (- 1, h1)
                          | Return (d, h2) \<Rightarrow>
                              Returns (0,
                                h2\<lparr>documents := (documents h2)(d \<mapsto>
                                      \<lparr>stream = stream_init E, json_data = json,
                                       json_len = jlen\<rparr>),
                                   cells := (cells h2)(the out_doc \<mapsto> DocumentCell (Some d))\<rparr>))))))"

definition simdjson_free_document ::
  "('p, 's, 'v) heap \<Rightarrow> simdjson_document_t \<Rightarrow> ('p, 's, 'v) heap outcome" where
  "simdjson_free_document h doc =
     (case doc of
        None \<Rightarrow> Returns h
      | Some a \<Rightarrow>
          (case documents h a of
             None \<Rightarrow> Undefined
           | Some impl \<Rightarrow>
               Returns (h\<lparr>documents := (documents h)(a := None), free_store := a # free_store h\<rparr>)))"

subsection \<open>Document root access\<close>

text \<open>
  Lines 82 to 105. A local \<^verbatim>\<open>ondemand::parser\<close> is constructed, parses the Document's
  stored pointer and length, and goes out of scope at the return. Null handle, error code
  and handler all return \<^verbatim>\<open>nullptr\<close>.
\<close>

definition simdjson_document_root ::
  "('p, 's, 'v) engine \<Rightarrow> ('p, 's, 'v) heap \<Rightarrow> simdjson_document_t
     \<Rightarrow> (simdjson_element_t \<times> ('p, 's, 'v) heap) outcome" where
  "simdjson_document_root E h doc_ptr =
     (if doc_ptr = None then Returns (None, h)
      else
        (case documents h (the doc_ptr) of
           None \<Rightarrow> Undefined
         | Some doc \<Rightarrow>
             (case parse_into_document E (parser_init E) (memory h) (json_data doc) (json_len doc) of
                (p', doc_result) \<Rightarrow>
                  (case doc_result of
                     Throw \<Rightarrow> Returns (None, h)
                   | Return r \<Rightarrow>
                       if error r \<noteq> 0 then Returns (None, h)
                       else
                         (case new h of
                            Throw \<Rightarrow> Returns (None, h)
                          | Return (e, h') \<Rightarrow>
                              Returns (Some e,
                                h'\<lparr>elements := (elements h')(e \<mapsto>
                                      \<lparr>elem_value = value_unsafe r\<rparr>)\<rparr>))))))"

definition simdjson_free_element ::
  "('p, 's, 'v) heap \<Rightarrow> simdjson_element_t \<Rightarrow> ('p, 's, 'v) heap outcome" where
  "simdjson_free_element h elem =
     (case elem of
        None \<Rightarrow> Returns h
      | Some a \<Rightarrow>
          (case elements h a of
             None \<Rightarrow> Undefined
           | Some impl \<Rightarrow>
               Returns (h\<lparr>elements := (elements h)(a := None), free_store := a # free_store h\<rparr>)))"

subsection \<open>Element value extraction\<close>

text \<open>
  Lines 114 to 214, five functions of one shape: the guard on both pointers, the engine's
  method, its error code passed on, the value written through the output pointer, and
  the handler returning \<open>-1\<close>. Each calls the method on \<^verbatim>\<open>elem->value\<close> in place, so the
  element keeps whatever state the method leaves in the value.
\<close>

definition simdjson_element_get_string ::
  "('p, 's, 'v) engine \<Rightarrow> ('p, 's, 'v) heap \<Rightarrow> simdjson_element_t \<Rightarrow> pointer
     \<Rightarrow> (int \<times> ('p, 's, 'v) heap) outcome" where
  "simdjson_element_get_string E h elem_ptr out_str =
     (if elem_ptr = None \<or> out_str = None then Returns (- 1, h)
      else
        (case elements h (the elem_ptr) of
           None \<Rightarrow> Undefined
         | Some elem \<Rightarrow>
             (case get_string E (elem_value elem) (memory h) of
                (v', str_result) \<Rightarrow>
                  (let h1 = h\<lparr>elements := (elements h)(the elem_ptr \<mapsto> elem\<lparr>elem_value := v'\<rparr>)\<rparr> in
                   case str_result of
                     Throw \<Rightarrow> Returns (- 1, h1)
                   | Return r \<Rightarrow>
                       if error r \<noteq> 0 then Returns (error r, h1)
                       else
                         Returns (0,
                           h1\<lparr>cells := (cells h1)(the out_str \<mapsto>
                                 StringCell \<lparr>data = sv_data (value_unsafe r),
                                             len = sv_length (value_unsafe r)\<rparr>)\<rparr>)))))"

definition simdjson_element_get_int64 ::
  "('p, 's, 'v) engine \<Rightarrow> ('p, 's, 'v) heap \<Rightarrow> simdjson_element_t \<Rightarrow> pointer
     \<Rightarrow> (int \<times> ('p, 's, 'v) heap) outcome" where
  "simdjson_element_get_int64 E h elem_ptr out_val =
     (if elem_ptr = None \<or> out_val = None then Returns (- 1, h)
      else
        (case elements h (the elem_ptr) of
           None \<Rightarrow> Undefined
         | Some elem \<Rightarrow>
             (case get_int64 E (elem_value elem) (memory h) of
                (v', int_result) \<Rightarrow>
                  (let h1 = h\<lparr>elements := (elements h)(the elem_ptr \<mapsto> elem\<lparr>elem_value := v'\<rparr>)\<rparr> in
                   case int_result of
                     Throw \<Rightarrow> Returns (- 1, h1)
                   | Return r \<Rightarrow>
                       if error r \<noteq> 0 then Returns (error r, h1)
                       else
                         Returns (0,
                           h1\<lparr>cells := (cells h1)(the out_val \<mapsto>
                                 Int64Cell (value_unsafe r))\<rparr>)))))"

definition simdjson_element_get_uint64 ::
  "('p, 's, 'v) engine \<Rightarrow> ('p, 's, 'v) heap \<Rightarrow> simdjson_element_t \<Rightarrow> pointer
     \<Rightarrow> (int \<times> ('p, 's, 'v) heap) outcome" where
  "simdjson_element_get_uint64 E h elem_ptr out_val =
     (if elem_ptr = None \<or> out_val = None then Returns (- 1, h)
      else
        (case elements h (the elem_ptr) of
           None \<Rightarrow> Undefined
         | Some elem \<Rightarrow>
             (case get_uint64 E (elem_value elem) (memory h) of
                (v', uint_result) \<Rightarrow>
                  (let h1 = h\<lparr>elements := (elements h)(the elem_ptr \<mapsto> elem\<lparr>elem_value := v'\<rparr>)\<rparr> in
                   case uint_result of
                     Throw \<Rightarrow> Returns (- 1, h1)
                   | Return r \<Rightarrow>
                       if error r \<noteq> 0 then Returns (error r, h1)
                       else
                         Returns (0,
                           h1\<lparr>cells := (cells h1)(the out_val \<mapsto>
                                 UInt64Cell (value_unsafe r))\<rparr>)))))"

definition simdjson_element_get_double ::
  "('p, 's, 'v) engine \<Rightarrow> ('p, 's, 'v) heap \<Rightarrow> simdjson_element_t \<Rightarrow> pointer
     \<Rightarrow> (int \<times> ('p, 's, 'v) heap) outcome" where
  "simdjson_element_get_double E h elem_ptr out_val =
     (if elem_ptr = None \<or> out_val = None then Returns (- 1, h)
      else
        (case elements h (the elem_ptr) of
           None \<Rightarrow> Undefined
         | Some elem \<Rightarrow>
             (case get_double E (elem_value elem) (memory h) of
                (v', double_result) \<Rightarrow>
                  (let h1 = h\<lparr>elements := (elements h)(the elem_ptr \<mapsto> elem\<lparr>elem_value := v'\<rparr>)\<rparr> in
                   case double_result of
                     Throw \<Rightarrow> Returns (- 1, h1)
                   | Return r \<Rightarrow>
                       if error r \<noteq> 0 then Returns (error r, h1)
                       else
                         Returns (0,
                           h1\<lparr>cells := (cells h1)(the out_val \<mapsto>
                                 DoubleCell (value_unsafe r))\<rparr>)))))"

definition simdjson_element_get_bool ::
  "('p, 's, 'v) engine \<Rightarrow> ('p, 's, 'v) heap \<Rightarrow> simdjson_element_t \<Rightarrow> pointer
     \<Rightarrow> (int \<times> ('p, 's, 'v) heap) outcome" where
  "simdjson_element_get_bool E h elem_ptr out_val =
     (if elem_ptr = None \<or> out_val = None then Returns (- 1, h)
      else
        (case elements h (the elem_ptr) of
           None \<Rightarrow> Undefined
         | Some elem \<Rightarrow>
             (case get_bool E (elem_value elem) (memory h) of
                (v', bool_result) \<Rightarrow>
                  (let h1 = h\<lparr>elements := (elements h)(the elem_ptr \<mapsto> elem\<lparr>elem_value := v'\<rparr>)\<rparr> in
                   case bool_result of
                     Throw \<Rightarrow> Returns (- 1, h1)
                   | Return r \<Rightarrow>
                       if error r \<noteq> 0 then Returns (error r, h1)
                       else
                         Returns (0,
                           h1\<lparr>cells := (cells h1)(the out_val \<mapsto>
                                 IntCell (if value_unsafe r then 1 else 0))\<rparr>)))))"

subsection \<open>Type checking functions\<close>

text \<open>Lines 217 to 272. Null handle, error code and handler all return 0.\<close>

definition simdjson_element_is_object ::
  "('p, 's, 'v) engine \<Rightarrow> ('p, 's, 'v) heap \<Rightarrow> simdjson_element_t
     \<Rightarrow> (int \<times> ('p, 's, 'v) heap) outcome" where
  "simdjson_element_is_object E h elem_ptr =
     (if elem_ptr = None then Returns (0, h)
      else
        (case elements h (the elem_ptr) of
           None \<Rightarrow> Undefined
         | Some elem \<Rightarrow>
             (case type_of E (elem_value elem) (memory h) of
                (v', type_result) \<Rightarrow>
                  (let h1 = h\<lparr>elements := (elements h)(the elem_ptr \<mapsto> elem\<lparr>elem_value := v'\<rparr>)\<rparr> in
                   case type_result of
                     Throw \<Rightarrow> Returns (0, h1)
                   | Return r \<Rightarrow>
                       if error r \<noteq> 0 then Returns (0, h1)
                       else Returns (if value_unsafe r = json_object then 1 else 0, h1)))))"

definition simdjson_element_is_array ::
  "('p, 's, 'v) engine \<Rightarrow> ('p, 's, 'v) heap \<Rightarrow> simdjson_element_t
     \<Rightarrow> (int \<times> ('p, 's, 'v) heap) outcome" where
  "simdjson_element_is_array E h elem_ptr =
     (if elem_ptr = None then Returns (0, h)
      else
        (case elements h (the elem_ptr) of
           None \<Rightarrow> Undefined
         | Some elem \<Rightarrow>
             (case type_of E (elem_value elem) (memory h) of
                (v', type_result) \<Rightarrow>
                  (let h1 = h\<lparr>elements := (elements h)(the elem_ptr \<mapsto> elem\<lparr>elem_value := v'\<rparr>)\<rparr> in
                   case type_result of
                     Throw \<Rightarrow> Returns (0, h1)
                   | Return r \<Rightarrow>
                       if error r \<noteq> 0 then Returns (0, h1)
                       else Returns (if value_unsafe r = json_array then 1 else 0, h1)))))"

definition simdjson_element_is_null ::
  "('p, 's, 'v) engine \<Rightarrow> ('p, 's, 'v) heap \<Rightarrow> simdjson_element_t
     \<Rightarrow> (int \<times> ('p, 's, 'v) heap) outcome" where
  "simdjson_element_is_null E h elem_ptr =
     (if elem_ptr = None then Returns (0, h)
      else
        (case elements h (the elem_ptr) of
           None \<Rightarrow> Undefined
         | Some elem \<Rightarrow>
             (case type_of E (elem_value elem) (memory h) of
                (v', type_result) \<Rightarrow>
                  (let h1 = h\<lparr>elements := (elements h)(the elem_ptr \<mapsto> elem\<lparr>elem_value := v'\<rparr>)\<rparr> in
                   case type_result of
                     Throw \<Rightarrow> Returns (0, h1)
                   | Return r \<Rightarrow>
                       if error r \<noteq> 0 then Returns (0, h1)
                       else Returns (if value_unsafe r = json_null then 1 else 0, h1)))))"

section \<open>A stand-in for the engine\<close>

text \<open>
  Modelled from the spec: the JSON engine behind \<^verbatim>\<open>simdjson/simdjson.h\<close> (its parser,
  \<^verbatim>\<open>parse_into_document\<close>, the \<^verbatim>\<open>get_*\<close> methods and \<^verbatim>\<open>type()\<close> of a value), which is
  not among the source files. The spec treats it as a black box that validates the byte
  range at parse time, resolves a value's type and contents when they are accessed, answers
  an extraction of the wrong type with a type-mismatch code, and hands out strings as views
  into the input buffer. The stand-in does this for the documents of the spec's examples
  that need no floating point: \<^verbatim>\<open>null\<close>, \<^verbatim>\<open>true\<close>, \<^verbatim>\<open>false\<close>, integers, strings without
  escapes, and the empty object and array, with no surrounding whitespace. It reports
  every other text as malformed. The theorems about the wrapper hold for every engine;
  the stand-in only supplies concrete runs.
\<close>

text \<open>
  Modelled from the spec: the engine's error codes, of which the spec names two
  categories, malformed input and type mismatch (section 7). The numbers stand for the
  engine's; the wrapper only depends on their not being zero.
\<close>

definition malformed_input :: error_code where
  "malformed_input = 1"

definition type_mismatch :: error_code where
  "type_mismatch = 2"

text \<open>
  Modelled from the spec: what the engine finds in the byte range. The grammar is JSON's,
  cut down to the documents listed above.
\<close>

datatype token = TokNull | TokBool bool | TokInteger int | TokString | TokObject | TokArray

primrec read_bytes :: "(addr \<Rightarrow> char) \<Rightarrow> addr \<Rightarrow> nat \<Rightarrow> string" where
  "read_bytes m a 0 = []"
| "read_bytes m a (Suc n) = m a # read_bytes m (Suc a) n"

definition digit :: "char \<Rightarrow> bool" where
  "digit c = (c \<in> set ''0123456789'')"

definition digits_value :: "string \<Rightarrow> nat" where
  "digits_value ds = foldl (\<lambda>n c. 10 * n + (of_char c - 48)) 0 ds"

definition natural :: "string \<Rightarrow> bool" where
  "natural ds =
     (ds \<noteq> [] \<and> list_all digit ds \<and> (if hd ds = CHR ''0'' then length ds = 1 else True))"

text \<open>A string payload the engine can hand out as it stands: no quote (0x22), no backslash (0x5C).\<close>

definition plain :: "string \<Rightarrow> bool" where
  "plain cs = list_all (\<lambda>c. c \<noteq> CHR 0x22 \<and> c \<noteq> CHR 0x5C) cs"

definition scan :: "string \<Rightarrow> token option" where
  "scan t =
     (if t = ''null'' then Some TokNull
      else if t = ''true'' then Some (TokBool True)
      else if t = ''false'' then Some (TokBool False)
      else if t = ''{}'' then Some TokObject
      else if t = ''[]'' then Some TokArray
      else if natural t then Some (TokInteger (int (digits_value t)))
      else if t \<noteq> [] \<and> hd t = CHR ''-'' \<and> natural (tl t)
        then Some (TokInteger (- int (digits_value (tl t))))
      else if 2 \<le> length t \<and> hd t = CHR 0x22 \<and> last t = CHR 0x22 \<and> plain (butlast (tl t))
        then Some TokString
      else None)"

text \<open>The stand-in's value is a cursor over the input: where the document starts and how long it is.\<close>

record cursor =
  origin :: pointer
  extent :: nat

definition token_at :: "(addr \<Rightarrow> char) \<Rightarrow> cursor \<Rightarrow> token option" where
  "token_at m c = (case origin c of None \<Rightarrow> None | Some a \<Rightarrow> scan (read_bytes m a (extent c)))"

text \<open>
  Modelled from the spec: \<^verbatim>\<open>parse_into_document\<close> (sections 3 and 4.2). It validates the
  byte range and reports malformed input by a non-zero code; the parser's state is the
  largest input it has seen (the size of its scratch buffers).
\<close>

definition spec_parse_into_document ::
  "nat \<Rightarrow> (addr \<Rightarrow> char) \<Rightarrow> pointer \<Rightarrow> nat \<Rightarrow> nat \<times> cursor simdjson_result call" where
  "spec_parse_into_document capacity m p n =
     (max capacity n,
      Return \<lparr>error = (case token_at m \<lparr>origin = p, extent = n\<rparr> of
                          None \<Rightarrow> malformed_input
                        | Some t \<Rightarrow> 0),
              value_unsafe = \<lparr>origin = p, extent = n\<rparr>\<rparr>)"

text \<open>
  Modelled from the spec: the result of an extraction whose type does not match (section
  4.4). The wrapper never reads the value of such a result.
\<close>

definition failed :: "'a \<Rightarrow> 'a simdjson_result" where
  "failed unread = \<lparr>error = type_mismatch, value_unsafe = unread\<rparr>"

text \<open>
  Modelled from the spec: the extraction methods (section 4.4). Each resolves the value
  when it is called, checks its type, and answers a mismatch with the type-mismatch code.
  \<^verbatim>\<open>get_string\<close> hands out the payload between the quotes as a view into the input.
\<close>

definition spec_get_string ::
  "cursor \<Rightarrow> (addr \<Rightarrow> char) \<Rightarrow> cursor \<times> string_view simdjson_result call" where
  "spec_get_string c m =
     (c, Return (case token_at m c of
                   Some TokString \<Rightarrow>
                     \<lparr>error = 0,
                      value_unsafe = \<lparr>sv_data = map_option Suc (origin c), sv_length = extent c - 2\<rparr>\<rparr>
                 | _ \<Rightarrow> failed \<lparr>sv_data = None, sv_length = 0\<rparr>))"

definition spec_get_int64 ::
  "cursor \<Rightarrow> (addr \<Rightarrow> char) \<Rightarrow> cursor \<times> int64_t simdjson_result call" where
  "spec_get_int64 c m =
     (c, Return (case token_at m c of
                   Some (TokInteger i) \<Rightarrow>
                     if - (2 ^ 63) \<le> i \<and> i < 2 ^ 63
                     then \<lparr>error = 0, value_unsafe = word_of_int i\<rparr>
                     else failed 0
                 | _ \<Rightarrow> failed 0))"

definition spec_get_uint64 ::
  "cursor \<Rightarrow> (addr \<Rightarrow> char) \<Rightarrow> cursor \<times> uint64_t simdjson_result call" where
  "spec_get_uint64 c m =
     (c, Return (case token_at m c of
                   Some (TokInteger i) \<Rightarrow>
                     if 0 \<le> i \<and> i < 2 ^ 64
                     then \<lparr>error = 0, value_unsafe = word_of_int i\<rparr>
                     else failed 0
                 | _ \<Rightarrow> failed 0))"

text \<open>
  Modelled from the spec: \<^verbatim>\<open>get_double\<close> on an integer. The binary64 pattern of an integer
  of magnitude below \<open>2 ^ 53\<close> is exact: sign, biased exponent, and the bits below the
  leading one.
\<close>

definition double_of_int :: "int \<Rightarrow> double" where
  "double_of_int i =
     (let n = nat \<bar>i\<bar>;
          e = floorlog 2 n - 1;
          sign = (if i < 0 then 2 ^ 63 else 0)
      in if n = 0 then Double 0
         else Double (word_of_nat (sign + (1023 + e) * 2 ^ 52 + (n - 2 ^ e) * 2 ^ (52 - e))))"

definition spec_get_double ::
  "cursor \<Rightarrow> (addr \<Rightarrow> char) \<Rightarrow> cursor \<times> double simdjson_result call" where
  "spec_get_double c m =
     (c, Return (case token_at m c of
                   Some (TokInteger i) \<Rightarrow>
                     if \<bar>i\<bar> < 2 ^ 53
                     then \<lparr>error = 0, value_unsafe = double_of_int i\<rparr>
                     else failed (Double 0)
                 | _ \<Rightarrow> failed (Double 0)))"

definition spec_get_bool ::
  "cursor \<Rightarrow> (addr \<Rightarrow> char) \<Rightarrow> cursor \<times> bool simdjson_result call" where
  "spec_get_bool c m =
     (c, Return (case token_at m c of
                   Some (TokBool b) \<Rightarrow> \<lparr>error = 0, value_unsafe = b\<rparr>
                 | _ \<Rightarrow> failed False))"

text \<open>Modelled from the spec: \<^verbatim>\<open>type()\<close> (section 4.5), which can fail to resolve.\<close>

definition spec_type_of ::
  "cursor \<Rightarrow> (addr \<Rightarrow> char) \<Rightarrow> cursor \<times> json_type simdjson_result call" where
  "spec_type_of c m =
     (c, Return (case token_at m c of
                   None \<Rightarrow> \<lparr>error = malformed_input, value_unsafe = json_null\<rparr>
                 | Some TokNull \<Rightarrow> \<lparr>error = 0, value_unsafe = json_null\<rparr>
                 | Some (TokBool b) \<Rightarrow> \<lparr>error = 0, value_unsafe = json_boolean\<rparr>
                 | Some (TokInteger i) \<Rightarrow> \<lparr>error = 0, value_unsafe = json_number\<rparr>
                 | Some TokString \<Rightarrow> \<lparr>error = 0, value_unsafe = json_string\<rparr>
                 | Some TokObject \<Rightarrow> \<lparr>error = 0, value_unsafe = json_object\<rparr>
                 | Some TokArray \<Rightarrow> \<lparr>error = 0, value_unsafe = json_array\<rparr>))"

text \<open>Modelled from the spec: the engine, assembled from the methods above.\<close>

definition spec_engine :: "(nat, nat, cursor) engine" where
  "spec_engine =
     \<lparr>parser_init = 0, stream_init = 0,
      parse_into_document = spec_parse_into_document,
      get_string = spec_get_string, get_int64 = spec_get_int64,
      get_uint64 = spec_get_uint64, get_double = spec_get_double,
      get_bool = spec_get_bool, type_of = spec_type_of\<rparr>"

text \<open>An engine all of whose methods throw: what the \<^verbatim>\<open>catch (...)\<close> blocks are there for.\<close>

definition throwing_engine :: "(nat, nat, cursor) engine" where
  "throwing_engine =
     \<lparr>parser_init = 0, stream_init = 0,
      parse_into_document = (\<lambda>p m b n. (p, Throw)),
      get_string = (\<lambda>v m. (v, Throw)), get_int64 = (\<lambda>v m. (v, Throw)),
      get_uint64 = (\<lambda>v m. (v, Throw)), get_double = (\<lambda>v m. (v, Throw)),
      get_bool = (\<lambda>v m. (v, Throw)), type_of = (\<lambda>v m. (v, Throw))\<rparr>"



subsection \<open>Concrete heaps\<close>

text \<open>Memory holding \<open>text\<close> from address \<open>a\<close> on, zero elsewhere.\<close>

definition bytes_at :: "addr \<Rightarrow> string \<Rightarrow> addr \<Rightarrow> char" where
  "bytes_at a text x = (if a \<le> x \<and> x < a + length text then text ! (x - a) else CHR 0x00)"

text \<open>
  A caller's heap before any call: nothing allocated, \<open>text\<close> in a buffer at address 100,
  and room for three objects.
\<close>

definition start_heap :: "string \<Rightarrow> (nat, nat, cursor) heap" where
  "start_heap text =
     \<lparr>parsers = Map.empty, documents = Map.empty, elements = Map.empty,
      free_store = [1, 2, 3], cells = Map.empty, memory = bytes_at 100 text\<rparr>"

text \<open>After \<^verbatim>\<open>simdjson_create_parser\<close>: parser 1, fresh.\<close>

definition created_heap :: "string \<Rightarrow> (nat, nat, cursor) heap" where
  "created_heap text =
     \<lparr>parsers = [1 \<mapsto> \<lparr>parser = 0\<rparr>], documents = Map.empty, elements = Map.empty,
      free_store = [2, 3], cells = Map.empty, memory = bytes_at 100 text\<rparr>"

text \<open>
  After \<^verbatim>\<open>simdjson_parse\<close> of the buffer into the output location 10, when the stand-in
  accepts the text: the parser has seen \<open>length text\<close> bytes, the document is object 2.
\<close>

definition document_heap :: "string \<Rightarrow> (nat, nat, cursor) heap" where
  "document_heap text =
     \<lparr>parsers = [1 \<mapsto> \<lparr>parser = length text\<rparr>],
      documents = [2 \<mapsto> \<lparr>stream = 0, json_data = Some 100, json_len = length text\<rparr>],
      elements = Map.empty,
      free_store = [3], cells = [10 \<mapsto> DocumentCell (Some 2)],
      memory = bytes_at 100 text\<rparr>"

text \<open>After \<^verbatim>\<open>simdjson_document_root\<close> on that document: the element is object 3.\<close>

definition parsed_heap :: "string \<Rightarrow> (nat, nat, cursor) heap" where
  "parsed_heap text =
     \<lparr>parsers = [1 \<mapsto> \<lparr>parser = length text\<rparr>],
      documents = [2 \<mapsto> \<lparr>stream = 0, json_data = Some 100, json_len = length text\<rparr>],
      elements = [3 \<mapsto> \<lparr>elem_value = \<lparr>origin = Some 100, extent = length text\<rparr>\<rparr>],
      free_store = [], cells = [10 \<mapsto> DocumentCell (Some 2)],
      memory = bytes_at 100 text\<rparr>"



section \<open>Notions the statements use\<close>

text \<open>
  The root as the spec words it for the wrapper (section 4.3, the literal behaviour): the
  parse routine is invoked again on the stored buffer and length, by a parsing context
  made for this one call, and the root is the value of that parse; there is none when the
  parse throws or reports an error. The context's state after the parse is dropped.
\<close>

definition RootOf_reparse ::
  "('p, 's, 'v) engine \<Rightarrow> (addr \<Rightarrow> char) \<Rightarrow> pointer \<Rightarrow> nat \<Rightarrow> 'v option" where
  "RootOf_reparse E m buffer n =
     (case parse_into_document E (parser_init E) m buffer n of
        (p', Throw) \<Rightarrow> None
      | (p', Return r) \<Rightarrow> if error r = 0 then Some (value_unsafe r) else None)"

text \<open>An engine call that returned and reported an error code.\<close>

definition reports_error :: "'a simdjson_result call \<Rightarrow> bool" where
  "reports_error res = (case res of Throw \<Rightarrow> False | Return r \<Rightarrow> error r \<noteq> 0)"

text \<open>A type query that returned without error and resolved to \<open>ty\<close>.\<close>

definition resolves_to :: "json_type simdjson_result call \<Rightarrow> json_type \<Rightarrow> bool" where
  "resolves_to res ty =
     (case res of Throw \<Rightarrow> False | Return r \<Rightarrow> error r = 0 \<and> value_unsafe r = ty)"




section \<open>The stand-in and the concrete heaps\<close>

subsection \<open>The stand-in reads back what the buffer holds\<close>


lemma read_bytes_drop:
  "k + n = length t \<Longrightarrow> read_bytes (bytes_at a t) (a + k) n = drop k t"
proof (induction n arbitrary: k)
  case 0
  then show ?case by simp
next
  case (Suc n)
  from Suc.prems have k: "k < length t" and rest: "Suc k + n = length t"
    by simp_all
  have "read_bytes (bytes_at a t) (a + k) (Suc n)
          = bytes_at a t (a + k) # read_bytes (bytes_at a t) (a + Suc k) n"
    by simp
  also have "bytes_at a t (a + k) = t ! k"
    using k by (simp add: bytes_at_def)
  also have "read_bytes (bytes_at a t) (a + Suc k) n = drop (Suc k) t"
    using rest by (rule Suc.IH)
  also have "t ! k # drop (Suc k) t = drop k t"
    using k by (rule Cons_nth_drop_Suc)
  finally show ?case .
qed


lemma read_bytes_bytes_at: "n = length t \<Longrightarrow> read_bytes (bytes_at a t) a n = t"
  using read_bytes_drop [of 0 n t a] by simp

lemma token_at_bytes_at:
  "n = length t \<Longrightarrow> token_at (bytes_at a t) \<lparr>origin = Some a, extent = n\<rparr> = scan t"
  by (simp add: token_at_def read_bytes_bytes_at)

subsection \<open>The example documents\<close>

lemma scan_tru: "scan ''tru'' = None"
  by (simp add: scan_def natural_def digit_def plain_def)

lemma scan_42: "scan ''42'' = Some (TokInteger 42)"
  by (simp add: scan_def natural_def digit_def digits_value_def)

lemma scan_null: "scan ''null'' = Some TokNull"
  by (simp add: scan_def)







text \<open>The conversion of an integer to binary64, on 42: exponent 5, so \<open>0x404\<close>, and mantissa \<open>0x5\<close>.\<close>

lemma floorlog_42: "floorlog 2 42 = 6"
  by (simp add: compute_floorlog)

lemma double_of_int_42: "double_of_int 42 = Double 0x4045000000000000"
  by (simp add: double_of_int_def floorlog_42)

subsection \<open>The methods of the two engines\<close>

lemma spec_parse_bytes_at:
  "n = length t \<Longrightarrow>
   parse_into_document spec_engine p (bytes_at a t) (Some a) n
     = (max p n, Return \<lparr>error = (case scan t of None \<Rightarrow> malformed_input | Some x \<Rightarrow> 0),
                           value_unsafe = \<lparr>origin = Some a, extent = n\<rparr>\<rparr>)"
  by (simp add: spec_engine_def spec_parse_into_document_def token_at_bytes_at)


lemma throwing_engine_calls:
  "parse_into_document throwing_engine p m b n = (p, Throw)"
  "get_string throwing_engine v m = (v, Throw)"
  "get_int64 throwing_engine v m = (v, Throw)"
  "get_uint64 throwing_engine v m = (v, Throw)"
  "get_double throwing_engine v m = (v, Throw)"
  "get_bool throwing_engine v m = (v, Throw)"
  "type_of throwing_engine v m = (v, Throw)"
  by (simp_all add: throwing_engine_def)

lemma throwing_reparse:
  "parse_into_document throwing_engine (parser_init throwing_engine) m b n = (0, Throw)"
  by (simp add: throwing_engine_def)

subsection \<open>A complete run on the stand-in\<close>

text \<open>
  The three heaps defined above are the ones the wrapper goes through on a text the
  stand-in accepts: create the parser, parse the buffer, take the root.
\<close>

lemma create_start_heap:
  "simdjson_create_parser spec_engine (start_heap t) = (Some 1, created_heap t)"
  by (simp add: simdjson_create_parser_def new_def spec_engine_def start_heap_def created_heap_def)


lemma root_document_heap:
  "scan t \<noteq> None \<Longrightarrow>
   simdjson_document_root spec_engine (document_heap t) (Some 2) = Returns (Some 3, parsed_heap t)"
  by (auto simp add: simdjson_document_root_def new_def spec_engine_def
      spec_parse_into_document_def document_heap_def parsed_heap_def token_at_bytes_at)

lemma parsed_heap_element:
  "elements (parsed_heap t) 3 = Some \<lparr>elem_value = \<lparr>origin = Some 100, extent = length t\<rparr>\<rparr>"
  by (simp add: parsed_heap_def)

lemma parsed_heap_token:
  "token_at (memory (parsed_heap t)) \<lparr>origin = Some 100, extent = length t\<rparr> = scan t"
  by (simp add: parsed_heap_def token_at_bytes_at)

lemma parsed_heap_objects:
  "parsers (parsed_heap t) 1 = Some \<lparr>parser = length t\<rparr>"
  "documents (parsed_heap t) 2 = Some \<lparr>stream = 0, json_data = Some 100, json_len = length t\<rparr>"
  "new (parsed_heap t) = Throw"
  "memory (parsed_heap t) = bytes_at 100 t"
  by (simp_all add: parsed_heap_def new_def)

lemma document_heap_document:
  "documents (document_heap t) 2 = Some \<lparr>stream = 0, json_data = Some 100, json_len = length t\<rparr>"
  by (simp add: document_heap_def)

lemma spec_reparse_document_heap:
  "parse_into_document spec_engine (parser_init spec_engine) (memory (document_heap t))
     (json_data \<lparr>stream = 0::nat, json_data = Some 100, json_len = length t\<rparr>)
     (json_len \<lparr>stream = 0::nat, json_data = Some 100, json_len = length t\<rparr>)
   = (length t, Return \<lparr>error = (case scan t of None \<Rightarrow> malformed_input | Some x \<Rightarrow> 0),
                         value_unsafe = \<lparr>origin = Some 100, extent = length t\<rparr>\<rparr>)"
  by (simp add: spec_engine_def spec_parse_into_document_def document_heap_def token_at_bytes_at)

lemma RootOf_reparse_document_heap:
  "n = length t \<Longrightarrow> scan t \<noteq> None \<Longrightarrow>
   RootOf_reparse spec_engine (bytes_at a t) (Some a) n = Some \<lparr>origin = Some a, extent = n\<rparr>"
  by (auto simp add: RootOf_reparse_def spec_parse_bytes_at)

subsection \<open>What the stand-in answers on the example documents\<close>

lemma spec_getters_on_parsed_heap:
  "get_string spec_engine \<lparr>origin = Some 100, extent = length t\<rparr> (memory (parsed_heap t))
     = spec_get_string \<lparr>origin = Some 100, extent = length t\<rparr> (bytes_at 100 t)"
  "get_int64 spec_engine \<lparr>origin = Some 100, extent = length t\<rparr> (memory (parsed_heap t))
     = spec_get_int64 \<lparr>origin = Some 100, extent = length t\<rparr> (bytes_at 100 t)"
  "get_uint64 spec_engine \<lparr>origin = Some 100, extent = length t\<rparr> (memory (parsed_heap t))
     = spec_get_uint64 \<lparr>origin = Some 100, extent = length t\<rparr> (bytes_at 100 t)"
  "get_double spec_engine \<lparr>origin = Some 100, extent = length t\<rparr> (memory (parsed_heap t))
     = spec_get_double \<lparr>origin = Some 100, extent = length t\<rparr> (bytes_at 100 t)"
  "get_bool spec_engine \<lparr>origin = Some 100, extent = length t\<rparr> (memory (parsed_heap t))
     = spec_get_bool \<lparr>origin = Some 100, extent = length t\<rparr> (bytes_at 100 t)"
  by (simp_all add: spec_engine_def parsed_heap_def)

lemma spec_getters_null:
  "spec_get_string \<lparr>origin = Some 100, extent = length ''null''\<rparr> (bytes_at 100 ''null'')
     = (\<lparr>origin = Some 100, extent = length ''null''\<rparr>, Return (failed \<lparr>sv_data = None, sv_length = 0\<rparr>))"
  "spec_get_int64 \<lparr>origin = Some 100, extent = length ''null''\<rparr> (bytes_at 100 ''null'')
     = (\<lparr>origin = Some 100, extent = length ''null''\<rparr>, Return (failed 0))"
  "spec_get_uint64 \<lparr>origin = Some 100, extent = length ''null''\<rparr> (bytes_at 100 ''null'')
     = (\<lparr>origin = Some 100, extent = length ''null''\<rparr>, Return (failed 0))"
  "spec_get_double \<lparr>origin = Some 100, extent = length ''null''\<rparr> (bytes_at 100 ''null'')
     = (\<lparr>origin = Some 100, extent = length ''null''\<rparr>, Return (failed (Double 0)))"
  "spec_get_bool \<lparr>origin = Some 100, extent = length ''null''\<rparr> (bytes_at 100 ''null'')
     = (\<lparr>origin = Some 100, extent = length ''null''\<rparr>, Return (failed False))"
  by (simp_all add: spec_get_string_def spec_get_int64_def spec_get_uint64_def
      spec_get_double_def spec_get_bool_def token_at_bytes_at scan_null del: list.size)

lemma spec_get_string_42:
  "spec_get_string \<lparr>origin = Some 100, extent = length ''42''\<rparr> (bytes_at 100 ''42'')
     = (\<lparr>origin = Some 100, extent = length ''42''\<rparr>, Return (failed \<lparr>sv_data = None, sv_length = 0\<rparr>))"
  by (simp add: spec_get_string_def token_at_bytes_at scan_42 del: list.size)

lemma spec_get_int64_42:
  "spec_get_int64 \<lparr>origin = Some 100, extent = length ''42''\<rparr> (bytes_at 100 ''42'')
     = (\<lparr>origin = Some 100, extent = length ''42''\<rparr>, Return \<lparr>error = 0, value_unsafe = 42\<rparr>)"
  by (simp add: spec_get_int64_def token_at_bytes_at scan_42 del: list.size)

lemma error_failed: "error (failed x) = type_mismatch" "type_mismatch \<noteq> 0"
  by (simp_all add: failed_def type_mismatch_def)


section \<open>What a successful call leaves behind\<close>



section \<open>The claims\<close>

subsection \<open>Root access re-parses the stored buffer\<close>

text \<open>
  Claim C1. For every live Document, \<^verbatim>\<open>simdjson_document_root\<close> is the spec's re-parse of
  the stored \<open>(json_data, json_len)\<close> by a parser made for the call, wrapped in a newly
  allocated element: it returns null when the re-parse yields no root or \<^verbatim>\<open>new\<close> throws,
  and otherwise a new element holding the root of that re-parse. The state the fresh
  parser is left in is dropped. Nothing the original \<^verbatim>\<open>simdjson_parse\<close> produced is
  consulted: whatever the parsers of the heap and the Document's \<^verbatim>\<open>stream\<close> hold, the
  element returned carries the root of the fresh re-parse.
\<close>

theorem document_root_is_fresh_reparse:
  assumes "documents h d = Some doc"
  shows "simdjson_document_root E h (Some d) =
           (case RootOf_reparse E (memory h) (json_data doc) (json_len doc) of
              None \<Rightarrow> Returns (None, h)
            | Some v \<Rightarrow>
                (case new h of
                   Throw \<Rightarrow> Returns (None, h)
                 | Return (e, h') \<Rightarrow>
                     Returns (Some e, h'\<lparr>elements := (elements h')(e \<mapsto> \<lparr>elem_value = v\<rparr>)\<rparr>)))
       \<and> (\<forall>ps st e h'.
             simdjson_document_root E
               (h\<lparr>parsers := ps, documents := (documents h)(d \<mapsto> doc\<lparr>stream := st\<rparr>)\<rparr>) (Some d)
               = Returns (Some e, h') \<longrightarrow>
             map_option elem_value (elements h' e)
               = RootOf_reparse E (memory h) (json_data doc) (json_len doc))"
proof -
  have eq: "simdjson_document_root E h (Some d) =
           (case RootOf_reparse E (memory h) (json_data doc) (json_len doc) of
              None \<Rightarrow> Returns (None, h)
            | Some v \<Rightarrow>
                (case new h of
                   Throw \<Rightarrow> Returns (None, h)
                 | Return (e, h') \<Rightarrow>
                     Returns (Some e, h'\<lparr>elements := (elements h')(e \<mapsto> \<lparr>elem_value = v\<rparr>)\<rparr>)))"
    using assms
    by (simp add: simdjson_document_root_def RootOf_reparse_def split: prod.split call.split)
  have indep: "\<forall>ps st e h'.
             simdjson_document_root E
               (h\<lparr>parsers := ps, documents := (documents h)(d \<mapsto> doc\<lparr>stream := st\<rparr>)\<rparr>) (Some d)
               = Returns (Some e, h') \<longrightarrow>
             map_option elem_value (elements h' e)
               = RootOf_reparse E (memory h) (json_data doc) (json_len doc)"
    by (auto simp add: simdjson_document_root_def RootOf_reparse_def new_def
        split: prod.splits call.splits if_splits list.splits)
  from eq indep show ?thesis ..
qed

text \<open>
  On the stand-in, for the document over \<^verbatim>\<open>42\<close>; the second run is on a heap whose parser
  has been freed and whose document has another \<^verbatim>\<open>stream\<close>.
\<close>

theorem document_root_is_fresh_reparse_witness:
  "simdjson_document_root spec_engine (document_heap ''42'') (Some 2)
     = Returns (Some 3, parsed_heap ''42'')
   \<and> elements (parsed_heap ''42'') 3 = Some \<lparr>elem_value = \<lparr>origin = Some 100, extent = 2\<rparr>\<rparr>
   \<and> RootOf_reparse spec_engine (bytes_at 100 ''42'') (Some 100) 2
       = Some \<lparr>origin = Some 100, extent = 2\<rparr>
   \<and> (\<exists>h'. simdjson_document_root spec_engine
               ((document_heap ''42'')\<lparr>parsers := Map.empty,
                   documents := [2 \<mapsto> \<lparr>stream = 7, json_data = Some 100, json_len = 2\<rparr>]\<rparr>)
               (Some 2) = Returns (Some 3, h')
            \<and> map_option elem_value (elements h' 3) = Some \<lparr>origin = Some 100, extent = 2\<rparr>)"
proof -
  note inst = document_root_is_fresh_reparse
    [where h = "document_heap ''42''" and E = spec_engine and d = 2, OF document_heap_document]
  have reparse: "RootOf_reparse spec_engine (bytes_at 100 ''42'') (Some 100) 2
                   = Some \<lparr>origin = Some 100, extent = 2\<rparr>"
    by (simp add: RootOf_reparse_document_heap scan_42)
  have mem: "memory (document_heap ''42'') = bytes_at 100 ''42''"
    by (simp add: document_heap_def)
  have run: "simdjson_document_root spec_engine (document_heap ''42'') (Some 2)
               = Returns (Some 3, parsed_heap ''42'')"
    by (rule root_document_heap) (simp add: scan_42)
  have altered: "(document_heap ''42'')\<lparr>parsers := Map.empty,
                   documents := [2 \<mapsto> \<lparr>stream = 7, json_data = Some 100, json_len = 2\<rparr>]\<rparr>
      = (document_heap ''42'')\<lparr>parsers := Map.empty,
           documents := (documents (document_heap ''42''))
             (2 \<mapsto> \<lparr>stream = 0, json_data = Some 100, json_len = length ''42''\<rparr>\<lparr>stream := 7\<rparr>)\<rparr>"
    by (simp add: document_heap_def numeral_2_eq_2)
  obtain h' where run': "simdjson_document_root spec_engine
               ((document_heap ''42'')\<lparr>parsers := Map.empty,
                   documents := [2 \<mapsto> \<lparr>stream = 7, json_data = Some 100, json_len = 2\<rparr>]\<rparr>)
               (Some 2) = Returns (Some 3, h')"
    by (simp add: simdjson_document_root_def document_heap_def new_def spec_parse_bytes_at scan_42)
  from inst [THEN conjunct2, rule_format, OF run' [unfolded altered]]
  have same: "map_option elem_value (elements h' 3) = Some \<lparr>origin = Some 100, extent = 2\<rparr>"
    by (simp add: mem RootOf_reparse_document_heap scan_42 numeral_2_eq_2)
  from run reparse run' same show ?thesis
    by (auto simp add: parsed_heap_def)
qed

subsection \<open>String extraction\<close>




subsection \<open>A failed parse\<close>

text \<open>
  Claim C3. Let the parser handle be live and the buffer and output pointers non-null,
  and let the engine's parse of the buffer return a result whose error code is not zero.
  Then \<^verbatim>\<open>simdjson_parse\<close> returns exactly that code. The output locations are as they
  were, so \<^verbatim>\<open>*out_doc\<close> is untouched, and no Document record is allocated: the live
  documents and the free store are unchanged.
\<close>

theorem parse_failure_passes_code:
  assumes "parsers h pa = Some impl"
    and "parse_into_document E (parser impl) (memory h) (Some buffer) jlen = (p', Return r)"
    and "error r \<noteq> 0"
  shows "\<exists>h'. simdjson_parse E h (Some pa) (Some buffer) jlen (Some out_doc) = Returns (error r, h')
           \<and> cells h' = cells h \<and> documents h' = documents h \<and> free_store h' = free_store h"
  using assms by (simp add: simdjson_parse_def)

text \<open>
  On the stand-in: the truncated literal \<^verbatim>\<open>tru\<close> is malformed, and the parse of it
  returns the engine's code for that, which is not zero.
\<close>

theorem parse_failure_passes_code_witness:
  "\<exists>h'. simdjson_parse spec_engine (created_heap ''tru'') (Some 1) (Some 100) 3 (Some 10)
            = Returns (malformed_input, h')
        \<and> malformed_input \<noteq> 0
        \<and> cells h' = cells (created_heap ''tru'')
        \<and> documents h' = documents (created_heap ''tru'')
        \<and> free_store h' = free_store (created_heap ''tru'')"
proof -
  have live: "parsers (created_heap ''tru'') 1 = Some \<lparr>parser = 0\<rparr>"
    by (simp add: created_heap_def)
  have call: "parse_into_document spec_engine (parser \<lparr>parser = 0::nat\<rparr>)
                (memory (created_heap ''tru'')) (Some 100) 3
              = (3, Return \<lparr>error = malformed_input,
                            value_unsafe = \<lparr>origin = Some 100, extent = 3\<rparr>\<rparr>)"
    by (simp add: spec_engine_def spec_parse_into_document_def created_heap_def
        token_at_bytes_at scan_tru)
  have bad: "error \<lparr>error = malformed_input,
                     value_unsafe = \<lparr>origin = Some (100::nat), extent = 3::nat\<rparr>\<rparr> \<noteq> 0"
    by (simp add: malformed_input_def)
  from parse_failure_passes_code [OF live call bad, of 10] bad show ?thesis
    by simp
qed

subsection \<open>Exceptions stop at the boundary\<close>

text \<open>
  Claim C4. Every wrapper function returns a value; what is thrown inside its \<^verbatim>\<open>try\<close>
  block is caught and becomes that value. With a live parser, document and element:
  \<^verbatim>\<open>simdjson_create_parser\<close> returns null when \<^verbatim>\<open>new\<close> throws; \<^verbatim>\<open>simdjson_parse\<close> returns
  \<open>-1\<close> when the engine's parse throws, and when \<^verbatim>\<open>new\<close> throws after a parse without
  error; \<^verbatim>\<open>simdjson_document_root\<close> returns null in the same two cases; each extraction
  returns \<open>-1\<close> when the engine's method throws; each type query returns 0 when the
  engine's \<^verbatim>\<open>type()\<close> throws. No output location is written on these paths.
\<close>

theorem exceptions_become_codes:
  assumes "parsers h pa = Some pimpl"
    and "documents h d = Some doc"
    and "elements h e = Some el"
  shows "(new h = Throw \<longrightarrow> simdjson_create_parser E h = (None, h))
    \<and> (\<forall>p'. parse_into_document E (parser pimpl) (memory h) (Some buffer) jlen = (p', Throw) \<longrightarrow>
          (\<exists>h'. simdjson_parse E h (Some pa) (Some buffer) jlen (Some out) = Returns (- 1, h')
              \<and> cells h' = cells h))
    \<and> (\<forall>p' r. parse_into_document E (parser pimpl) (memory h) (Some buffer) jlen = (p', Return r) \<longrightarrow>
          error r = 0 \<longrightarrow> new h = Throw \<longrightarrow>
          (\<exists>h'. simdjson_parse E h (Some pa) (Some buffer) jlen (Some out) = Returns (- 1, h')
              \<and> cells h' = cells h))
    \<and> (\<forall>p'. parse_into_document E (parser_init E) (memory h) (json_data doc) (json_len doc)
               = (p', Throw) \<longrightarrow>
          simdjson_document_root E h (Some d) = Returns (None, h))
    \<and> (\<forall>p' r. parse_into_document E (parser_init E) (memory h) (json_data doc) (json_len doc)
               = (p', Return r) \<longrightarrow>
          error r = 0 \<longrightarrow> new h = Throw \<longrightarrow>
          simdjson_document_root E h (Some d) = Returns (None, h))
    \<and> (\<forall>v'. get_string E (elem_value el) (memory h) = (v', Throw) \<longrightarrow>
          (\<exists>h'. simdjson_element_get_string E h (Some e) (Some out) = Returns (- 1, h')
              \<and> cells h' = cells h))
    \<and> (\<forall>v'. get_int64 E (elem_value el) (memory h) = (v', Throw) \<longrightarrow>
          (\<exists>h'. simdjson_element_get_int64 E h (Some e) (Some out) = Returns (- 1, h')
              \<and> cells h' = cells h))
    \<and> (\<forall>v'. get_uint64 E (elem_value el) (memory h) = (v', Throw) \<longrightarrow>
          (\<exists>h'. simdjson_element_get_uint64 E h (Some e) (Some out) = Returns (- 1, h')
              \<and> cells h' = cells h))
    \<and> (\<forall>v'. get_double E (elem_value el) (memory h) = (v', Throw) \<longrightarrow>
          (\<exists>h'. simdjson_element_get_double E h (Some e) (Some out) = Returns (- 1, h')
              \<and> cells h' = cells h))
    \<and> (\<forall>v'. get_bool E (elem_value el) (memory h) = (v', Throw) \<longrightarrow>
          (\<exists>h'. simdjson_element_get_bool E h (Some e) (Some out) = Returns (- 1, h')
              \<and> cells h' = cells h))
    \<and> (\<forall>v'. type_of E (elem_value el) (memory h) = (v', Throw) \<longrightarrow>
          (\<exists>h'. simdjson_element_is_object E h (Some e) = Returns (0, h'))
          \<and> (\<exists>h'. simdjson_element_is_array E h (Some e) = Returns (0, h'))
          \<and> (\<exists>h'. simdjson_element_is_null E h (Some e) = Returns (0, h')))"
proof -
  have create: "new h = Throw \<longrightarrow> simdjson_create_parser E h = (None, h)"
    by (simp add: simdjson_create_parser_def)
  have parse: "\<forall>p'. parse_into_document E (parser pimpl) (memory h) (Some buffer) jlen = (p', Throw) \<longrightarrow>
          (\<exists>h'. simdjson_parse E h (Some pa) (Some buffer) jlen (Some out) = Returns (- 1, h')
              \<and> cells h' = cells h)"
    using assms(1) by (simp add: simdjson_parse_def)
  have parse_alloc: "\<forall>p' r. parse_into_document E (parser pimpl) (memory h) (Some buffer) jlen = (p', Return r) \<longrightarrow>
          error r = 0 \<longrightarrow> new h = Throw \<longrightarrow>
          (\<exists>h'. simdjson_parse E h (Some pa) (Some buffer) jlen (Some out) = Returns (- 1, h')
              \<and> cells h' = cells h)"
    using assms(1) by (simp add: simdjson_parse_def new_def split: list.splits)
  have root: "\<forall>p'. parse_into_document E (parser_init E) (memory h) (json_data doc) (json_len doc)
               = (p', Throw) \<longrightarrow>
          simdjson_document_root E h (Some d) = Returns (None, h)"
    using assms(2) by (simp add: simdjson_document_root_def)
  have root_alloc: "\<forall>p' r. parse_into_document E (parser_init E) (memory h) (json_data doc) (json_len doc)
               = (p', Return r) \<longrightarrow>
          error r = 0 \<longrightarrow> new h = Throw \<longrightarrow>
          simdjson_document_root E h (Some d) = Returns (None, h)"
    using assms(2) by (simp add: simdjson_document_root_def)
  have getters:
    "\<forall>v'. get_string E (elem_value el) (memory h) = (v', Throw) \<longrightarrow>
          (\<exists>h'. simdjson_element_get_string E h (Some e) (Some out) = Returns (- 1, h')
              \<and> cells h' = cells h)"
    "\<forall>v'. get_int64 E (elem_value el) (memory h) = (v', Throw) \<longrightarrow>
          (\<exists>h'. simdjson_element_get_int64 E h (Some e) (Some out) = Returns (- 1, h')
              \<and> cells h' = cells h)"
    "\<forall>v'. get_uint64 E (elem_value el) (memory h) = (v', Throw) \<longrightarrow>
          (\<exists>h'. simdjson_element_get_uint64 E h (Some e) (Some out) = Returns (- 1, h')
              \<and> cells h' = cells h)"
    "\<forall>v'. get_double E (elem_value el) (memory h) = (v', Throw) \<longrightarrow>
          (\<exists>h'. simdjson_element_get_double E h (Some e) (Some out) = Returns (- 1, h')
              \<and> cells h' = cells h)"
    "\<forall>v'. get_bool E (elem_value el) (memory h) = (v', Throw) \<longrightarrow>
          (\<exists>h'. simdjson_element_get_bool E h (Some e) (Some out) = Returns (- 1, h')
              \<and> cells h' = cells h)"
    using assms(3)
    by (simp_all add: simdjson_element_get_string_def simdjson_element_get_int64_def
        simdjson_element_get_uint64_def simdjson_element_get_double_def
        simdjson_element_get_bool_def)
  have queries: "\<forall>v'. type_of E (elem_value el) (memory h) = (v', Throw) \<longrightarrow>
          (\<exists>h'. simdjson_element_is_object E h (Some e) = Returns (0, h'))
          \<and> (\<exists>h'. simdjson_element_is_array E h (Some e) = Returns (0, h'))
          \<and> (\<exists>h'. simdjson_element_is_null E h (Some e) = Returns (0, h'))"
    using assms(3)
    by (simp add: simdjson_element_is_object_def simdjson_element_is_array_def
        simdjson_element_is_null_def)
  from create parse parse_alloc root root_alloc getters queries show ?thesis
    by (intro conjI)
qed

text \<open>
  With the engine all of whose methods throw, and with the stand-in on a heap whose free
  store is exhausted.
\<close>

theorem exceptions_become_codes_witness:
  "simdjson_create_parser spec_engine (parsed_heap ''42'') = (None, parsed_heap ''42'')
   \<and> (\<exists>h'. simdjson_parse throwing_engine (parsed_heap ''42'') (Some 1) (Some 100) 2 (Some 20)
             = Returns (- 1, h') \<and> cells h' = cells (parsed_heap ''42''))
   \<and> (\<exists>h'. simdjson_parse spec_engine (parsed_heap ''42'') (Some 1) (Some 100) 2 (Some 20)
             = Returns (- 1, h') \<and> cells h' = cells (parsed_heap ''42''))
   \<and> simdjson_document_root throwing_engine (parsed_heap ''42'') (Some 2)
       = Returns (None, parsed_heap ''42'')
   \<and> simdjson_document_root spec_engine (parsed_heap ''42'') (Some 2)
       = Returns (None, parsed_heap ''42'')
   \<and> (\<exists>h'. simdjson_element_get_string throwing_engine (parsed_heap ''42'') (Some 3) (Some 20)
             = Returns (- 1, h') \<and> cells h' = cells (parsed_heap ''42''))
   \<and> (\<exists>h'. simdjson_element_get_int64 throwing_engine (parsed_heap ''42'') (Some 3) (Some 20)
             = Returns (- 1, h') \<and> cells h' = cells (parsed_heap ''42''))
   \<and> (\<exists>h'. simdjson_element_get_uint64 throwing_engine (parsed_heap ''42'') (Some 3) (Some 20)
             = Returns (- 1, h') \<and> cells h' = cells (parsed_heap ''42''))
   \<and> (\<exists>h'. simdjson_element_get_double throwing_engine (parsed_heap ''42'') (Some 3) (Some 20)
             = Returns (- 1, h') \<and> cells h' = cells (parsed_heap ''42''))
   \<and> (\<exists>h'. simdjson_element_get_bool throwing_engine (parsed_heap ''42'') (Some 3) (Some 20)
             = Returns (- 1, h') \<and> cells h' = cells (parsed_heap ''42''))
   \<and> (\<exists>h'. simdjson_element_is_object throwing_engine (parsed_heap ''42'') (Some 3)
             = Returns (0, h'))
   \<and> (\<exists>h'. simdjson_element_is_array throwing_engine (parsed_heap ''42'') (Some 3)
             = Returns (0, h'))
   \<and> (\<exists>h'. simdjson_element_is_null throwing_engine (parsed_heap ''42'') (Some 3)
             = Returns (0, h'))"
proof -
  note thrown = exceptions_become_codes
    [where h = "parsed_heap ''42''" and E = throwing_engine and pa = 1 and d = 2 and e = 3
       and buffer = 100 and jlen = 2 and out = 20,
     OF parsed_heap_objects(1) parsed_heap_objects(2) parsed_heap_element]
  note no_room = exceptions_become_codes
    [where h = "parsed_heap ''42''" and E = spec_engine and pa = 1 and d = 2 and e = 3
       and buffer = 100 and jlen = 2 and out = 20,
     OF parsed_heap_objects(1) parsed_heap_objects(2) parsed_heap_element]
  from thrown no_room show ?thesis
    by (simp add: parsed_heap_objects(3,4) throwing_engine_calls spec_parse_bytes_at scan_42)
qed

subsection \<open>Typed extraction of the wrong type\<close>

text \<open>
  Claim C5. On a live element, when the engine's extraction method returns a result whose
  error code is not zero (the value's runtime type does not match the one asked for), the
  wrapper's \<^verbatim>\<open>get_string\<close>, \<^verbatim>\<open>get_int64\<close>, \<^verbatim>\<open>get_uint64\<close>, \<^verbatim>\<open>get_double\<close> and \<^verbatim>\<open>get_bool\<close>
  each return exactly that code, and the output locations are as they were.
\<close>

theorem extraction_mismatch_passes_code:
  assumes "elements h e = Some el"
  shows "(\<forall>v' r. get_string E (elem_value el) (memory h) = (v', Return r) \<longrightarrow> error r \<noteq> 0 \<longrightarrow>
            (\<exists>h'. simdjson_element_get_string E h (Some e) (Some out) = Returns (error r, h')
                \<and> cells h' = cells h))
       \<and> (\<forall>v' r. get_int64 E (elem_value el) (memory h) = (v', Return r) \<longrightarrow> error r \<noteq> 0 \<longrightarrow>
            (\<exists>h'. simdjson_element_get_int64 E h (Some e) (Some out) = Returns (error r, h')
                \<and> cells h' = cells h))
       \<and> (\<forall>v' r. get_uint64 E (elem_value el) (memory h) = (v', Return r) \<longrightarrow> error r \<noteq> 0 \<longrightarrow>
            (\<exists>h'. simdjson_element_get_uint64 E h (Some e) (Some out) = Returns (error r, h')
                \<and> cells h' = cells h))
       \<and> (\<forall>v' r. get_double E (elem_value el) (memory h) = (v', Return r) \<longrightarrow> error r \<noteq> 0 \<longrightarrow>
            (\<exists>h'. simdjson_element_get_double E h (Some e) (Some out) = Returns (error r, h')
                \<and> cells h' = cells h))
       \<and> (\<forall>v' r. get_bool E (elem_value el) (memory h) = (v', Return r) \<longrightarrow> error r \<noteq> 0 \<longrightarrow>
            (\<exists>h'. simdjson_element_get_bool E h (Some e) (Some out) = Returns (error r, h')
                \<and> cells h' = cells h))"
  using assms
  by (simp add: simdjson_element_get_string_def simdjson_element_get_int64_def
      simdjson_element_get_uint64_def simdjson_element_get_double_def
      simdjson_element_get_bool_def)

text \<open>
  On the stand-in: after parsing \<^verbatim>\<open>42\<close>, \<^verbatim>\<open>get_int64\<close> on the root returns 0 and stores
  42, while \<^verbatim>\<open>get_string\<close> on the same root returns the type-mismatch code, which is not
  zero; after parsing \<^verbatim>\<open>null\<close> all five extractions return it.
\<close>

theorem extraction_mismatch_passes_code_witness:
  "(\<exists>h'. simdjson_element_get_int64 spec_engine (parsed_heap ''42'') (Some 3) (Some 20)
            = Returns (0, h') \<and> cells h' 20 = Some (Int64Cell 42))
   \<and> (\<exists>h'. simdjson_element_get_string spec_engine (parsed_heap ''42'') (Some 3) (Some 20)
            = Returns (type_mismatch, h') \<and> cells h' = cells (parsed_heap ''42''))
   \<and> type_mismatch \<noteq> 0
   \<and> (\<exists>h'. simdjson_element_get_string spec_engine (parsed_heap ''null'') (Some 3) (Some 20)
            = Returns (type_mismatch, h') \<and> cells h' = cells (parsed_heap ''null''))
   \<and> (\<exists>h'. simdjson_element_get_int64 spec_engine (parsed_heap ''null'') (Some 3) (Some 20)
            = Returns (type_mismatch, h') \<and> cells h' = cells (parsed_heap ''null''))
   \<and> (\<exists>h'. simdjson_element_get_uint64 spec_engine (parsed_heap ''null'') (Some 3) (Some 20)
            = Returns (type_mismatch, h') \<and> cells h' = cells (parsed_heap ''null''))
   \<and> (\<exists>h'. simdjson_element_get_double spec_engine (parsed_heap ''null'') (Some 3) (Some 20)
            = Returns (type_mismatch, h') \<and> cells h' = cells (parsed_heap ''null''))
   \<and> (\<exists>h'. simdjson_element_get_bool spec_engine (parsed_heap ''null'') (Some 3) (Some 20)
            = Returns (type_mismatch, h') \<and> cells h' = cells (parsed_heap ''null''))"
proof -
  have ok: "\<exists>h'. simdjson_element_get_int64 spec_engine (parsed_heap ''42'') (Some 3) (Some 20)
            = Returns (0, h') \<and> cells h' 20 = Some (Int64Cell 42)"
    by (simp add: simdjson_element_get_int64_def parsed_heap_element
        spec_getters_on_parsed_heap spec_get_int64_42 del: list.size)
  note on_42 = extraction_mismatch_passes_code
    [where h = "parsed_heap ''42''" and E = spec_engine and out = 20 and e = 3,
     OF parsed_heap_element]
  note on_null = extraction_mismatch_passes_code
    [where h = "parsed_heap ''null''" and E = spec_engine and out = 20 and e = 3,
     OF parsed_heap_element]
  from ok on_42 on_null show ?thesis
    by (simp add: spec_getters_on_parsed_heap spec_getters_null spec_get_string_42 error_failed
        del: list.size)
qed

subsection \<open>Null handles\<close>

text \<open>
  Claim C6. A status-returning operation that is handed a null handle returns the fixed
  code \<open>-1\<close>: \<^verbatim>\<open>simdjson_parse\<close> with a null parser, and each of the five extractions
  with a null element. The heap comes back as it was, so nothing is written through the
  output pointer, and the equation holds for every engine, whatever its methods would
  do: none of them is called.
\<close>

theorem null_handle_returns_minus_one:
  "simdjson_parse E h None json jlen out_doc = Returns (- 1, h)
   \<and> simdjson_element_get_string E h None out_str = Returns (- 1, h)
   \<and> simdjson_element_get_int64 E h None out_int64 = Returns (- 1, h)
   \<and> simdjson_element_get_uint64 E h None out_uint64 = Returns (- 1, h)
   \<and> simdjson_element_get_double E h None out_double = Returns (- 1, h)
   \<and> simdjson_element_get_bool E h None out_bool = Returns (- 1, h)"
  by (simp add: simdjson_parse_def simdjson_element_get_string_def
      simdjson_element_get_int64_def simdjson_element_get_uint64_def
      simdjson_element_get_double_def simdjson_element_get_bool_def)

subsection \<open>A successful parse\<close>

text \<open>
  Claim C7, as the code has it. Let the parser handle be live, the buffer and output
  pointers non-null, the engine's parse of exactly \<open>(buffer, jlen)\<close> return without error,
  and let \<^verbatim>\<open>new\<close> have an address \<open>d\<close> to give. Then \<^verbatim>\<open>simdjson_parse\<close> returns 0,
  \<^verbatim>\<open>*out_doc\<close> holds the handle \<open>d\<close>, and \<open>d\<close> is a live Document whose record holds the
  caller's buffer pointer and length themselves; the bytes stay where they were. The
  parser keeps the state the engine's call on that byte range left.
\<close>

theorem parse_success_stores_buffer:
  assumes "parsers h pa = Some impl"
    and "parse_into_document E (parser impl) (memory h) (Some buffer) jlen = (p', Return r)"
    and "error r = 0"
    and "free_store h = d # rest"
  shows "\<exists>h'. simdjson_parse E h (Some pa) (Some buffer) jlen (Some out_doc) = Returns (0, h')
           \<and> cells h' out_doc = Some (DocumentCell (Some d))
           \<and> documents h' d
               = Some \<lparr>stream = stream_init E, json_data = Some buffer, json_len = jlen\<rparr>
           \<and> parsers h' pa = Some (impl\<lparr>parser := p'\<rparr>)
           \<and> memory h' = memory h"
  using assms by (simp add: simdjson_parse_def new_def)

text \<open>On the stand-in, parsing the two bytes \<^verbatim>\<open>42\<close> at address 100.\<close>

theorem parse_success_stores_buffer_witness:
  "\<exists>h'. simdjson_parse spec_engine (created_heap ''42'') (Some 1) (Some 100) 2 (Some 10)
           = Returns (0, h')
        \<and> cells h' 10 = Some (DocumentCell (Some 2))
        \<and> documents h' 2 = Some \<lparr>stream = 0, json_data = Some 100, json_len = 2\<rparr>
        \<and> parsers h' 1 = Some \<lparr>parser = 2\<rparr>
        \<and> memory h' = bytes_at 100 ''42''"
proof -
  have live: "parsers (created_heap ''42'') 1 = Some \<lparr>parser = 0\<rparr>"
    by (simp add: created_heap_def)
  have call: "parse_into_document spec_engine (parser \<lparr>parser = 0::nat\<rparr>)
                (memory (created_heap ''42'')) (Some 100) 2
              = (2, Return \<lparr>error = 0, value_unsafe = \<lparr>origin = Some 100, extent = 2\<rparr>\<rparr>)"
    by (simp add: spec_engine_def spec_parse_into_document_def created_heap_def
        token_at_bytes_at scan_42)
  have ok: "error \<lparr>error = 0, value_unsafe = \<lparr>origin = Some (100::nat), extent = 2::nat\<rparr>\<rparr> = 0"
    by simp
  have room: "free_store (created_heap ''42'') = 2 # [3]"
    by (simp add: created_heap_def)
  from parse_success_stores_buffer [OF live call ok room, of 10] show ?thesis
    by (simp add: spec_engine_def created_heap_def)
qed

text \<open>
  The claim without the proviso on \<^verbatim>\<open>new\<close> fails: the engine parses \<^verbatim>\<open>42\<close> without
  error, \<^verbatim>\<open>new SimdJsonDocumentImpl()\<close> throws because the free store is exhausted, the
  \<^verbatim>\<open>catch (...)\<close> returns \<open>-1\<close>, and nothing is written to \<^verbatim>\<open>*out_doc\<close>.
\<close>

theorem parse_success_without_room_counterexample:
  "parse_into_document spec_engine 0 (memory ((created_heap ''42'')\<lparr>free_store := []\<rparr>)) (Some 100) 2
     = (2, Return \<lparr>error = 0, value_unsafe = \<lparr>origin = Some 100, extent = 2\<rparr>\<rparr>)
   \<and> (\<exists>h'. simdjson_parse spec_engine ((created_heap ''42'')\<lparr>free_store := []\<rparr>)
               (Some 1) (Some 100) 2 (Some 10) = Returns (- 1, h')
            \<and> cells h' 10 = None \<and> documents h' = Map.empty)"
  by (simp add: simdjson_parse_def new_def spec_engine_def spec_parse_into_document_def
      created_heap_def token_at_bytes_at scan_42)

subsection \<open>Root access: null or an element\<close>

text \<open>
  Claim C8. \<^verbatim>\<open>simdjson_document_root\<close> returns null on a null handle. On a live document
  it returns null exactly when the re-parse reports an error or an exception is thrown,
  by the engine's parse or by \<^verbatim>\<open>new SimdJsonElementImpl()\<close> after a parse without error.
  Every null return leaves the heap as it was: the result is the handle alone, and the
  causes of a null cannot be told apart.
\<close>

theorem root_null_exactly_on_failure:
  assumes "documents h d = Some doc"
    and "parse_into_document E (parser_init E) (memory h) (json_data doc) (json_len doc)
           = (p', res)"
  shows "simdjson_document_root E h None = Returns (None, h)
       \<and> (\<exists>elem h'. simdjson_document_root E h (Some d) = Returns (elem, h')
              \<and> (elem = None \<longleftrightarrow>
                   reports_error res \<or> res = Throw \<or> (\<not> reports_error res \<and> new h = Throw))
              \<and> (elem = None \<longrightarrow> h' = h))"
  using assms
  by (auto simp add: simdjson_document_root_def reports_error_def split: call.splits)

text \<open>
  On the stand-in: a null handle; a document over \<^verbatim>\<open>42\<close> (an element); a document whose
  buffer holds \<^verbatim>\<open>tru\<close> (an error); an engine that throws; and no room for the element.
\<close>

theorem root_null_exactly_on_failure_witness:
  "simdjson_document_root spec_engine (document_heap ''42'') None
     = Returns (None, document_heap ''42'')
   \<and> (\<exists>elem h'. simdjson_document_root spec_engine (document_heap ''42'') (Some 2)
                   = Returns (elem, h') \<and> elem \<noteq> None)
   \<and> simdjson_document_root spec_engine (document_heap ''tru'') (Some 2)
       = Returns (None, document_heap ''tru'')
   \<and> simdjson_document_root throwing_engine (document_heap ''42'') (Some 2)
       = Returns (None, document_heap ''42'')
   \<and> simdjson_document_root spec_engine ((document_heap ''42'')\<lparr>free_store := []\<rparr>) (Some 2)
       = Returns (None, (document_heap ''42'')\<lparr>free_store := []\<rparr>)"
proof -
  have room: "new (document_heap ''42'') \<noteq> Throw"
    by (simp add: new_def document_heap_def)
  have full: "new ((document_heap ''42'')\<lparr>free_store := []\<rparr>) = Throw"
    by (simp add: new_def)
  have doc': "documents ((document_heap ''42'')\<lparr>free_store := []\<rparr>) 2
               = Some \<lparr>stream = 0, json_data = Some 100, json_len = length ''42''\<rparr>"
    by (simp add: document_heap_def)
  have call': "parse_into_document spec_engine (parser_init spec_engine)
       (memory ((document_heap ''42'')\<lparr>free_store := []\<rparr>))
       (json_data \<lparr>stream = 0::nat, json_data = Some 100, json_len = length ''42''\<rparr>)
       (json_len \<lparr>stream = 0::nat, json_data = Some 100, json_len = length ''42''\<rparr>)
     = (length ''42'', Return \<lparr>error = 0,
                         value_unsafe = \<lparr>origin = Some 100, extent = length ''42''\<rparr>\<rparr>)"
    using spec_reparse_document_heap [of "''42''"] by (simp add: scan_42 del: list.size)
  note good = root_null_exactly_on_failure
    [OF document_heap_document spec_reparse_document_heap, of "''42''"]
  note bad = root_null_exactly_on_failure
    [OF document_heap_document spec_reparse_document_heap, of "''tru''"]
  note thrown = root_null_exactly_on_failure
    [OF document_heap_document throwing_reparse, of "''42''"]
  note exhausted = root_null_exactly_on_failure [OF doc' call']
  from good bad thrown exhausted room full show ?thesis
    by (auto simp add: reports_error_def scan_42 scan_tru malformed_input_def simp del: list.size)
qed

subsection \<open>Type introspection\<close>

text \<open>
  Claim C9. Each of \<^verbatim>\<open>simdjson_element_is_object\<close>, \<^verbatim>\<open>_is_array\<close> and \<^verbatim>\<open>_is_null\<close>
  returns 0 on a null handle. On a live element it returns 1 when the engine's type query
  returns without error and resolves to the queried type, and 0 in every other case: the
  query threw, it reported an error, or it resolved to another type. The result is the
  only channel: an \<^verbatim>\<open>int\<close> that is 0 or 1, and no output location is written.
\<close>

theorem type_queries_are_boolean:
  assumes "elements h e = Some el"
    and "type_of E (elem_value el) (memory h) = (v', res)"
  shows "simdjson_element_is_object E h None = Returns (0, h)
       \<and> simdjson_element_is_array E h None = Returns (0, h)
       \<and> simdjson_element_is_null E h None = Returns (0, h)
       \<and> (\<exists>h'. simdjson_element_is_object E h (Some e)
                   = Returns (if resolves_to res json_object then 1 else 0, h')
              \<and> cells h' = cells h)
       \<and> (\<exists>h'. simdjson_element_is_array E h (Some e)
                   = Returns (if resolves_to res json_array then 1 else 0, h')
              \<and> cells h' = cells h)
       \<and> (\<exists>h'. simdjson_element_is_null E h (Some e)
                   = Returns (if resolves_to res json_null then 1 else 0, h')
              \<and> cells h' = cells h)"
  using assms
  by (simp add: simdjson_element_is_object_def simdjson_element_is_array_def
      simdjson_element_is_null_def resolves_to_def split: call.split)

text \<open>On the stand-in, after parsing \<^verbatim>\<open>null\<close>: \<^verbatim>\<open>simdjson_element_is_null\<close> returns 1.\<close>

theorem type_queries_are_boolean_witness:
  "simdjson_element_is_null spec_engine (parsed_heap ''null'') None
        = Returns (0, parsed_heap ''null'')
   \<and> (\<exists>h'. simdjson_element_is_object spec_engine (parsed_heap ''null'') (Some 3) = Returns (0, h')
          \<and> cells h' = cells (parsed_heap ''null''))
   \<and> (\<exists>h'. simdjson_element_is_array spec_engine (parsed_heap ''null'') (Some 3) = Returns (0, h')
          \<and> cells h' = cells (parsed_heap ''null''))
   \<and> (\<exists>h'. simdjson_element_is_null spec_engine (parsed_heap ''null'') (Some 3) = Returns (1, h')
          \<and> cells h' = cells (parsed_heap ''null''))"
proof -
  have call: "type_of spec_engine (elem_value \<lparr>elem_value = \<lparr>origin = Some 100, extent = length ''null''\<rparr>\<rparr>)
                (memory (parsed_heap ''null''))
              = (\<lparr>origin = Some 100, extent = length ''null''\<rparr>,
                 Return \<lparr>error = 0, value_unsafe = json_null\<rparr>)"
    unfolding spec_engine_def by (simp add: spec_type_of_def parsed_heap_token scan_null del: list.size)
  from type_queries_are_boolean [OF parsed_heap_element call] show ?thesis
    by (simp add: resolves_to_def)
qed

subsection \<open>Null output pointers\<close>

text \<open>
  Claim C10. Each extraction returns \<open>-1\<close> when its output pointer is null, whatever the
  element handle is (a live element included), and \<^verbatim>\<open>simdjson_parse\<close> returns \<open>-1\<close> when
  the buffer pointer or \<^verbatim>\<open>out_doc\<close> is null. The heap is unchanged and the engine is not
  consulted: the guard comes before the handle is cast.
\<close>

theorem null_output_returns_minus_one:
  "simdjson_element_get_string E h elem_ptr None = Returns (- 1, h)
   \<and> simdjson_element_get_int64 E h elem_ptr None = Returns (- 1, h)
   \<and> simdjson_element_get_uint64 E h elem_ptr None = Returns (- 1, h)
   \<and> simdjson_element_get_double E h elem_ptr None = Returns (- 1, h)
   \<and> simdjson_element_get_bool E h elem_ptr None = Returns (- 1, h)
   \<and> simdjson_parse E h parser_ptr None jlen out_doc = Returns (- 1, h)
   \<and> simdjson_parse E h parser_ptr json jlen None = Returns (- 1, h)"
  by (simp add: simdjson_parse_def simdjson_element_get_string_def
      simdjson_element_get_int64_def simdjson_element_get_uint64_def
      simdjson_element_get_double_def simdjson_element_get_bool_def)

end
